theory Spec2Isabelle
  imports Complex_Main "HOL-Library.Sublist"
begin

section \<open>Conventions\<close>

text \<open>
  Python floats are modelled as reals (exact arithmetic, no NaN, no rounding), Python ints as
  \<open>int\<close> or \<open>nat\<close>, and a raised \<open>Exception\<close> as a value \<open>Inl e\<close> of a sum type.
  Only instances of \<open>Exception\<close> are modelled: \<open>KeyboardInterrupt\<close> and
  \<open>SystemExit\<close> are outside the model.
\<close>

datatype exn = IOError string | IndexError string | ValueError string | Exception string

fun str_exn :: "exn \<Rightarrow> string" where
  "str_exn (IOError m) = m"
| "str_exn (IndexError m) = m"
| "str_exn (ValueError m) = m"
| "str_exn (Exception m) = m"

section \<open>scene\_detector/detector.py\<close>

record SceneDetector =
  threshold :: real
  min_scene_len :: int

text \<open>\<open>SceneDetector.__init__\<close>: \<open>self.min_scene_len = max(1, int(min_scene_len))\<close>.\<close>

definition SceneDetector_init :: "real \<Rightarrow> int \<Rightarrow> SceneDetector" where
  "SceneDetector_init thr msl = \<lparr>threshold = thr, min_scene_len = max 1 msl\<rparr>"

text \<open>
  The chi-square distance of lines 55--61, as the vectorised numpy code computes it:
  \<open>denom = h1 + h2; denom[denom == 0] = 1.0; chi2 = 0.5 * np.sum(((h1 - h2) ** 2) / denom)\<close>.
  Histograms have a fixed length (3 channels of 32 bins), so the element-wise operations
  are a \<open>map2\<close>.
\<close>

definition chi2 :: "real list \<Rightarrow> real list \<Rightarrow> real" where
  "chi2 h1 h2 =
     (let denom = map2 (+) h1 h2;
          denom = map (\<lambda>x. if x = 0 then 1 else x) denom
      in 0.5 * sum_list (map2 (/) (map (\<lambda>x. x ^ 2) (map2 (-) h1 h2)) denom))"

text \<open>
  The loop \<open>for i in range(1, n)\<close> of \<open>detect_scenes\<close>, over the list of the indices
  still to visit, with the loop variables \<open>boundaries\<close> and \<open>last_boundary\<close>.
\<close>

fun detect_loop :: "SceneDetector \<Rightarrow> real list list \<Rightarrow> nat list \<Rightarrow> nat list \<Rightarrow> nat \<Rightarrow> nat list" where
  "detect_loop self hists [] boundaries last_boundary = boundaries"
| "detect_loop self hists (i # is) boundaries last_boundary =
     (let h1 = hists ! (i - 1);
          h2 = hists ! i
      in if chi2 h1 h2 \<ge> threshold self \<and> int i - int last_boundary \<ge> min_scene_len self
         then detect_loop self hists is (boundaries @ [i]) i
         else detect_loop self hists is boundaries last_boundary)"

text \<open>
  The loop that fills \<open>hists\<close>. The histogram of a frame (PIL and numpy) is a parameter
  \<open>histogram\<close>, which may raise; the first exception leaves the loop.
\<close>

fun collect_hists :: "('f \<Rightarrow> exn + real list) \<Rightarrow> 'f list \<Rightarrow> exn + real list list" where
  "collect_hists histogram [] = Inr []"
| "collect_hists histogram (f # fs) =
     (case histogram f of
        Inl e \<Rightarrow> Inl e
      | Inr h \<Rightarrow> (case collect_hists histogram fs of
                    Inl e \<Rightarrow> Inl e
                  | Inr hs \<Rightarrow> Inr (h # hs)))"

definition detect_scenes ::
  "('f \<Rightarrow> exn + real list) \<Rightarrow> SceneDetector \<Rightarrow> 'f list \<Rightarrow> exn + nat list" where
  "detect_scenes histogram self frames =
     (let n = length frames
      in if n = 0 then Inr []
         else (case collect_hists histogram frames of
                 Inl e \<Rightarrow> Inl e
               | Inr hists \<Rightarrow> Inr (detect_loop self hists [1..<n] [0] 0)))"



section \<open>keyframe\_selector/selector.py\<close>

record KeyframeSelector =
  n_keyframes :: "int option"

text \<open>\<open>np.dot(a, b)\<close> of two vectors, and of a matrix (a list of rows) with a vector.\<close>

definition dot :: "real list \<Rightarrow> real list \<Rightarrow> real" where
  "dot a b = sum_list (map2 (*) a b)"

definition np_dot :: "real list list \<Rightarrow> real list \<Rightarrow> real list" where
  "np_dot embs v = map (\<lambda>row. dot row v) embs"

text \<open>
  \<open>np.argmax\<close> of a non-empty array: the index of the first occurrence of the maximum.
  \<open>argmax_from xs i best bv\<close> scans \<open>xs\<close>, whose first element has index \<open>i\<close>,
  with the best index and value found so far. The sampling calls it on \<open>min_dists\<close>,
  which has one entry per row and at least one; on the empty array, which it never gets,
  numpy raises and the model gives 0.
\<close>

fun argmax_from :: "real list \<Rightarrow> nat \<Rightarrow> nat \<Rightarrow> real \<Rightarrow> nat" where
  "argmax_from [] i best bv = best"
| "argmax_from (x # xs) i best bv =
     (if x > bv then argmax_from xs (Suc i) i x else argmax_from xs (Suc i) best bv)"

fun np_argmax :: "real list \<Rightarrow> nat" where
  "np_argmax [] = 0"
| "np_argmax (x # xs) = argmax_from xs 1 0 x"

text \<open>
  The loop \<open>for _ in range(1, k)\<close> of \<open>_farthest_point_sampling\<close>; the first argument
  counts the iterations left.
\<close>

fun fps_loop :: "real list list \<Rightarrow> nat \<Rightarrow> nat list \<Rightarrow> real list \<Rightarrow> nat list" where
  "fps_loop embs 0 selected min_dists = selected"
| "fps_loop embs (Suc m) selected min_dists =
     (let idx = np_argmax min_dists;
          selected = selected @ [idx];
          dists = map (\<lambda>x. 1 - x) (np_dot embs (embs ! idx));
          min_dists = map2 min min_dists dists
      in fps_loop embs m selected min_dists)"

text \<open>
  \<open>_farthest_point_sampling\<close>. With \<open>k < n\<close> and no row at all (so \<open>k < 0\<close>),
  \<open>embs[0]\<close> raises.
\<close>

definition farthest_point_sampling :: "real list list \<Rightarrow> int \<Rightarrow> exn + nat list" where
  "farthest_point_sampling embs k =
     (let n = length embs
      in if k \<ge> int n then Inr [0..<n]
         else if n = 0 then Inl (IndexError ''index 0 is out of bounds for axis 0 with size 0'')
         else (let selected = [0];
                   min_dists = map (\<lambda>x. 1 - x) (np_dot embs (embs ! 0))
               in Inr (fps_loop embs (nat (k - 1)) selected min_dists)))"

text \<open>
  \<open>_compute_embeddings\<close> (the CLIP model, then the division of each row by its
  floating-point L2 norm) is a parameter \<open>compute_embeddings\<close> of \<open>select\<close>: it
  returns the matrix of embeddings as a list of rows, or raises (a model that fails to
  load, an image it refuses).
\<close>

text \<open>
  The count \<open>k\<close> of \<open>select\<close> before and after \<open>k = min(k, n)\<close>:
  \<open>self.n_keyframes or max(1, min(5, n // max(1, n // 5)))\<close>, where \<open>None\<close> and
  \<open>0\<close> are falsy.
\<close>

definition requested_k :: "KeyframeSelector \<Rightarrow> int \<Rightarrow> int" where
  "requested_k self n =
     (case n_keyframes self of
        None \<Rightarrow> max 1 (min 5 (n div max 1 (n div 5)))
      | Some c \<Rightarrow> if c \<noteq> 0 then c else max 1 (min 5 (n div max 1 (n div 5))))"

definition effective_k :: "KeyframeSelector \<Rightarrow> int \<Rightarrow> int" where
  "effective_k self n = min (requested_k self n) n"

definition select ::
  "('f list \<Rightarrow> exn + real list list) \<Rightarrow> KeyframeSelector \<Rightarrow> 'f list \<Rightarrow> exn + nat list" where
  "select compute_embeddings self frames =
     (let n = int (length frames)
      in if n = 0 then Inr []
         else (let k = effective_k self n
               in case compute_embeddings frames of
                    Inl e \<Rightarrow> Inl e
                  | Inr embs \<Rightarrow>
                      (case farthest_point_sampling embs k of
                         Inl e \<Rightarrow> Inl e
                       | Inr sel \<Rightarrow> Inr (sort sel))))"

section \<open>video\_parser/parser.py\<close>

record VideoParser =
  source :: string
  step :: int

definition VideoParser_init :: "string \<Rightarrow> int \<Rightarrow> VideoParser" where
  "VideoParser_init src stp = \<lparr>source = src, step = max 1 stp\<rparr>"

text \<open>
  \<open>frames\<close> contains \<open>yield\<close>, so it is a generator function: a call runs none of
  its body and returns a generator; the body runs when the generator is iterated. A
  generator is modelled by what iterating it to its end does: raise, or yield a list.
\<close>

datatype 'f generator = Generator "exn + 'f list"

text \<open>\<open>list(g)\<close> runs the body.\<close>

fun list_of_generator :: "'f generator \<Rightarrow> exn + 'f list" where
  "list_of_generator (Generator body) = body"

text \<open>The frames whose index \<open>idx\<close> satisfies \<open>idx % step == 0\<close>.\<close>

fun sampled :: "int \<Rightarrow> int \<Rightarrow> 'f list \<Rightarrow> 'f list" where
  "sampled stp idx [] = []"
| "sampled stp idx (f # fs) =
     (if idx mod stp = 0 then f # sampled stp (idx + 1) fs else sampled stp (idx + 1) fs)"

text \<open>
  The body of \<open>frames\<close>. OpenCV is a parameter \<open>cv2\<close>: \<open>None\<close> for a source that
  does not open, else the frames that \<open>cap.read()\<close> delivers until it reports the end.
\<close>

definition frames_body :: "(string \<Rightarrow> 'f list option) \<Rightarrow> VideoParser \<Rightarrow> exn + 'f list" where
  "frames_body cv2 self =
     (case cv2 (source self) of
        None \<Rightarrow> Inl (IOError (''Failed to open video source: '' @ source self))
      | Some raw \<Rightarrow> Inr (sampled (step self) 0 raw))"

definition VideoParser_frames :: "(string \<Rightarrow> 'f list option) \<Rightarrow> VideoParser \<Rightarrow> exn + 'f generator" where
  "VideoParser_frames cv2 self = Inr (Generator (frames_body cv2 self))"

section \<open>pipeline/pipeline.py\<close>

text \<open>
  What a run does to the outside, in order: the calls of the progress callback that were
  made, and the calls of the captioner and of the summarizer.
\<close>

datatype 'f effect =
    Progress string real string
  | CaptionBatch "'f list"
  | Summarize "string list"

text \<open>
  A progress callback takes stage, percent and message, and returns normally (\<open>None\<close>)
  or raises (\<open>Some e\<close>). The argument \<open>progress_callback\<close> of \<open>run\<close> is \<open>None\<close> when
  it is not callable.
\<close>

type_synonym callback = "string \<Rightarrow> real \<Rightarrow> string \<Rightarrow> exn option"

text \<open>The libraries the pipeline reaches through the objects it constructs itself.\<close>

record 'f environment =
  env_cv2 :: "string \<Rightarrow> 'f list option"
  env_histogram :: "'f \<Rightarrow> exn + real list"
  env_compute_embeddings :: "'f list \<Rightarrow> exn + real list list"

text \<open>
  The injected collaborators: \<open>self.captioner.caption_batch\<close> and
  \<open>self.summarizer.summarize\<close>; each may raise.
\<close>

record 'f Pipeline =
  captioner :: "'f list \<Rightarrow> exn + string list"
  summarizer :: "string list \<Rightarrow> exn + string"

text \<open>\<open>str(n)\<close> for a non-negative integer, as the f-strings print it.\<close>

fun str_nat :: "nat \<Rightarrow> string" where
  "str_nat n =
     (if n < 10 then [char_of (48 + n)]
      else str_nat (n div 10) @ [char_of (48 + n mod 10)])"

declare str_nat.simps [simp del]

text \<open>
  The inner function \<open>_cb\<close>: a callable callback is called, and what it raises is
  dropped.
\<close>

definition cb :: "callback option \<Rightarrow> 'f effect list \<Rightarrow> string \<Rightarrow> real \<Rightarrow> string \<Rightarrow> 'f effect list" where
  "cb progress_callback tr stage percent message =
     (case progress_callback of
        None \<Rightarrow> tr
      | Some f \<Rightarrow>
          (case f stage percent message of
             None \<Rightarrow> tr @ [Progress stage percent message]
           | Some e \<Rightarrow> tr @ [Progress stage percent message]))"

text \<open>
  \<open>[scene_frames[k] for k in key_idxs]\<close>: an index past the end raises
  \<open>IndexError\<close>.
\<close>

fun index_all :: "'f list \<Rightarrow> nat list \<Rightarrow> exn + 'f list" where
  "index_all xs [] = Inr []"
| "index_all xs (k # ks) =
     (if k < length xs
      then (case index_all xs ks of
              Inl e \<Rightarrow> Inl e
            | Inr ys \<Rightarrow> Inr (xs ! k # ys))
      else Inl (IndexError ''list index out of range''))"

text \<open>
  Lines 74--84 of \<open>run\<close>, for the frames of a scene that is not empty: the keyframes
  are selected (any exception of the selector gives \<open>[0]\<close>), captioned, and the
  captions summarized. The result is the list of the calls of the collaborators that were
  made, and the summary of the scene or the exception that leaves \<open>run\<close>.
\<close>

definition summarize_scene ::
  "'f environment \<Rightarrow> 'f Pipeline \<Rightarrow> 'f list \<Rightarrow> 'f effect list \<times> (exn + string)" where
  "summarize_scene env self scene_frames =
     (let key_idxs =
            (case select (env_compute_embeddings env) \<lparr>n_keyframes = None\<rparr> scene_frames of
               Inl e \<Rightarrow> [0]
             | Inr sel \<Rightarrow> sel)
      in case index_all scene_frames key_idxs of
           Inl e \<Rightarrow> ([], Inl e)
         | Inr keyframes \<Rightarrow>
             (case captioner self keyframes of
                Inl e \<Rightarrow> ([CaptionBatch keyframes], Inl e)
              | Inr captions \<Rightarrow>
                  (case summarizer self captions of
                     Inl e \<Rightarrow> ([CaptionBatch keyframes, Summarize captions], Inl e)
                   | Inr scene_summary \<Rightarrow>
                       ([CaptionBatch keyframes, Summarize captions], Inr scene_summary))))"

text \<open>
  One iteration of \<open>for i, start_idx in enumerate(boundaries)\<close> (lines 65--86), from
  the trace and the scene summaries before it to those after it, or to the exception that
  leaves \<open>run\<close>.
\<close>

definition process_scene ::
  "'f environment \<Rightarrow> 'f Pipeline \<Rightarrow> callback option \<Rightarrow> 'f list \<Rightarrow> nat list \<Rightarrow> nat \<Rightarrow>
   nat \<Rightarrow> nat \<Rightarrow> 'f effect list \<Rightarrow> string list \<Rightarrow> 'f effect list \<times> (exn + string list)" where
  "process_scene env self progress_callback frames boundaries total_scenes i start_idx tr scene_summaries =
     (let percent_base = real i / real total_scenes;
          percent_step = 1 / real total_scenes;
          tr = cb progress_callback tr (''scene_'' @ str_nat i @ ''_start'') percent_base
                 (''scene '' @ str_nat i @ '' starting at frame '' @ str_nat start_idx);
          end_idx = (if i + 1 < length boundaries then boundaries ! (i + 1) else length frames);
          scene_frames = drop start_idx (take end_idx frames)
      in if scene_frames = []
         then (cb progress_callback tr (''scene_'' @ str_nat i @ ''_done'')
                 (percent_base + percent_step) ''empty scene'',
               Inr scene_summaries)
         else
           (case summarize_scene env self scene_frames of
              (calls, Inl e) \<Rightarrow> (tr @ calls, Inl e)
            | (calls, Inr scene_summary) \<Rightarrow>
                (cb progress_callback (tr @ calls) (''scene_'' @ str_nat i @ ''_done'')
                   (percent_base + percent_step) (''scene '' @ str_nat i @ '' done''),
                 Inr (scene_summaries @ [scene_summary]))))"

text \<open>The loop itself, over what \<open>enumerate(boundaries)\<close> still has to deliver.\<close>

fun scene_loop ::
  "'f environment \<Rightarrow> 'f Pipeline \<Rightarrow> callback option \<Rightarrow> 'f list \<Rightarrow> nat list \<Rightarrow> nat \<Rightarrow>
   (nat \<times> nat) list \<Rightarrow> 'f effect list \<Rightarrow> string list \<Rightarrow> 'f effect list \<times> (exn + string list)" where
  "scene_loop env self progress_callback frames boundaries total_scenes [] tr scene_summaries =
     (tr, Inr scene_summaries)"
| "scene_loop env self progress_callback frames boundaries total_scenes ((i, start_idx) # rest) tr scene_summaries =
     (case process_scene env self progress_callback frames boundaries total_scenes i start_idx tr scene_summaries of
        (tr, Inl e) \<Rightarrow> (tr, Inl e)
      | (tr, Inr scene_summaries) \<Rightarrow>
          scene_loop env self progress_callback frames boundaries total_scenes rest tr scene_summaries)"

text \<open>Step 4 of \<open>run\<close>, the final aggregation (lines 89--96).\<close>

definition aggregate ::
  "'f Pipeline \<Rightarrow> callback option \<Rightarrow> 'f effect list \<Rightarrow> string list \<Rightarrow> 'f effect list \<times> (exn + string)" where
  "aggregate self progress_callback tr scene_summaries =
     (let tr = cb progress_callback tr ''aggregation'' 0 ''aggregating scene summaries''
      in if scene_summaries = []
         then (cb progress_callback tr ''aggregation'' 1 ''no scenes'', Inr [])
         else
           (let tr = tr @ [Summarize scene_summaries]
            in case summarizer self scene_summaries of
                 Inl e \<Rightarrow> (tr, Inl e)
               | Inr final \<Rightarrow>
                   (let tr = cb progress_callback tr ''aggregation'' 1 ''done'';
                        tr = cb progress_callback tr ''finished'' 1 ''pipeline complete''
                    in (tr, Inr final))))"

text \<open>
  \<open>Pipeline.run\<close>: the trace of the run, and the string it returns (\<open>Inr\<close>) or the
  exception that reaches its caller (\<open>Inl\<close>). The parser, the detector and the selector
  are constructed with their defaults.
\<close>

definition run ::
  "'f environment \<Rightarrow> 'f Pipeline \<Rightarrow> string \<Rightarrow> callback option \<Rightarrow> 'f effect list \<times> (exn + string)" where
  "run env self video_path progress_callback =
     (let tr = cb progress_callback [] ''parsing'' 0 ''opening video'';
          parser = VideoParser_init video_path 1
      in case VideoParser_frames (env_cv2 env) parser of
           Inl e \<Rightarrow>
             (cb progress_callback tr ''parsing'' 1 (''failed: '' @ str_exn e),
              Inr ''[Pipeline error] failed to open video'')
         | Inr frames_iterator \<Rightarrow>
             (let tr = cb progress_callback tr ''parsing'' 1 ''done'';
                  tr = cb progress_callback tr ''scene_detection'' 0 ''collecting frames''
              in case list_of_generator frames_iterator of
                   Inl e \<Rightarrow> (tr, Inl e)
                 | Inr frames \<Rightarrow>
                     (let detector = SceneDetector_init 0.5 5
                      in case detect_scenes (env_histogram env) detector frames of
                           Inl e \<Rightarrow>
                             (cb progress_callback tr ''scene_detection'' 1 (''failed: '' @ str_exn e),
                              Inr ''[Pipeline error] scene detection failed'')
                         | Inr boundaries \<Rightarrow>
                             (let tr = cb progress_callback tr ''scene_detection'' 1
                                         (''found '' @ str_nat (length boundaries) @ '' scene(s)'');
                                  total_scenes = max 1 (length boundaries)
                              in case scene_loop env self progress_callback frames boundaries
                                        total_scenes (enumerate 0 boundaries) tr [] of
                                   (tr, Inl e) \<Rightarrow> (tr, Inl e)
                                 | (tr, Inr scene_summaries) \<Rightarrow>
                                     aggregate self progress_callback tr scene_summaries))))"




text \<open>The calls of the collaborators in a trace, the progress events left out.\<close>

fun collaborator_calls :: "'f effect list \<Rightarrow> 'f effect list" where
  "collaborator_calls [] = []"
| "collaborator_calls (Progress stage percent message # tr) = collaborator_calls tr"
| "collaborator_calls (CaptionBatch images # tr) = CaptionBatch images # collaborator_calls tr"
| "collaborator_calls (Summarize texts # tr) = Summarize texts # collaborator_calls tr"

section \<open>Properties of scene detection\<close>

lemma detect_loop_snoc:
  "bs \<noteq> [] \<Longrightarrow>
   detect_loop d h (js @ [i]) bs (last bs) =
     (if threshold d \<le> chi2 (h ! (i - 1)) (h ! i) \<and>
         min_scene_len d \<le> int i - int (last (detect_loop d h js bs (last bs)))
      then detect_loop d h js bs (last bs) @ [i] else detect_loop d h js bs (last bs))"
proof (induction js arbitrary: bs)
  case Nil
  then show ?case by simp
next
  case (Cons a js)
  show ?case
    using Cons.IH [of "bs @ [a]"] Cons.IH [OF Cons.prems]
    by (simp add: Let_def)
qed

lemma detect_prefix_Suc:
  "detect_loop d h ([Suc 0..<m] @ [m]) [0] 0 =
     (if threshold d \<le> chi2 (h ! (m - 1)) (h ! m) \<and>
         min_scene_len d \<le> int m - int (last (detect_loop d h [Suc 0..<m] [0] 0))
      then detect_loop d h [Suc 0..<m] [0] 0 @ [m] else detect_loop d h [Suc 0..<m] [0] 0)"
  using detect_loop_snoc [of "[0]" d h "[Suc 0..<m]" m] by simp

lemma detect_prefix_inv:
  "detect_loop d h [1..<m] [0] 0 \<noteq> [] \<and> hd (detect_loop d h [1..<m] [0] 0) = 0 \<and>
   sorted_wrt (<) (detect_loop d h [1..<m] [0] 0) \<and>
   (\<forall>b \<in> set (detect_loop d h [1..<m] [0] 0). b < max 1 m) \<and>
   successively (\<lambda>a b. min_scene_len d \<le> int b - int a) (detect_loop d h [1..<m] [0] 0)"
proof (induction m)
  case 0
  show ?case by simp
next
  case (Suc m)
  show ?case
  proof (cases "m = 0")
    case True
    then show ?thesis by simp
  next
    case False
    then have m: "1 \<le> m" by simp
    show ?thesis
      using Suc m
      by (auto simp: detect_prefix_Suc sorted_wrt_append successively_append_iff
                     max_def less_Suc_eq)
  qed
qed


lemma collect_hists_ok:
  "(\<forall>f \<in> set fs. \<exists>h. histogram f = Inr h) \<Longrightarrow>
   \<exists>hs. collect_hists histogram fs = Inr hs \<and> length hs = length fs"
  by (induction fs) auto



lemma detect_scenes_Inr:
  "collect_hists histogram frames = Inr hists \<Longrightarrow> frames \<noteq> [] \<Longrightarrow>
   detect_scenes histogram d frames = Inr (detect_loop d hists [1..<length frames] [0] 0)"
  by (simp add: detect_scenes_def)

text \<open>
  Claim C4. For the empty frame sequence \<open>detect_scenes\<close> returns the empty list. For
  a non-empty one whose frames all have a histogram, it returns a list of boundaries that
  starts with 0, is strictly increasing, and in which each boundary is at least
  \<open>min_scene_len\<close> frames after the one before it.
\<close>

theorem detect_scenes_boundaries:
  "detect_scenes histogram d [] = Inr [] \<and>
   (frames \<noteq> [] \<and> (\<forall>f \<in> set frames. \<exists>h. histogram f = Inr h) \<longrightarrow>
      (\<exists>bs. detect_scenes histogram d frames = Inr bs \<and> bs \<noteq> [] \<and> hd bs = 0 \<and>
            sorted_wrt (<) bs \<and>
            successively (\<lambda>a b. min_scene_len d \<le> int b - int a) bs))"
proof (intro conjI impI)
  show "detect_scenes histogram d [] = Inr []"
    by (simp add: detect_scenes_def)
next
  assume a: "frames \<noteq> [] \<and> (\<forall>f \<in> set frames. \<exists>h. histogram f = Inr h)"
  then obtain hists where hs: "collect_hists histogram frames = Inr hists"
    using collect_hists_ok [of frames histogram] by blast
  have "detect_scenes histogram d frames = Inr (detect_loop d hists [1..<length frames] [0] 0)"
    using hs a by (simp add: detect_scenes_Inr)
  then show "\<exists>bs. detect_scenes histogram d frames = Inr bs \<and> bs \<noteq> [] \<and> hd bs = 0 \<and>
            sorted_wrt (<) bs \<and>
            successively (\<lambda>a b. min_scene_len d \<le> int b - int a) bs"
    using detect_prefix_inv [of d hists "length frames"] by simp
qed

theorem detect_scenes_boundaries_witness:
  "\<exists>bs. detect_scenes (\<lambda>h. Inr h) (SceneDetector_init 0.1 1) [[1, 0], [1, 0], [0, 1], [0, 1 :: real]] = Inr bs \<and>
        bs \<noteq> [] \<and> hd bs = 0 \<and> sorted_wrt (<) bs \<and>
        successively (\<lambda>a b. min_scene_len (SceneDetector_init 0.1 1) \<le> int b - int a) bs"
  using detect_scenes_boundaries [of "\<lambda>h. Inr h" "SceneDetector_init 0.1 1"
          "[[1, 0], [1, 0], [0, 1], [0, 1 :: real]]"]
  by simp




section \<open>Properties of keyframe selection\<close>

lemma argmax_from_range:
  "argmax_from xs i best bv = best \<or>
   (i \<le> argmax_from xs i best bv \<and> argmax_from xs i best bv < i + length xs)"
proof (induction xs arbitrary: i best bv)
  case Nil
  show ?case by simp
next
  case (Cons x xs)
  show ?case
    using Cons.IH [of "Suc i" i x] Cons.IH [of "Suc i" best bv] by auto
qed

lemma np_argmax_less: "xs \<noteq> [] \<Longrightarrow> np_argmax xs < length xs"
proof (cases xs)
  case Nil
  then show "xs \<noteq> [] \<Longrightarrow> ?thesis" by simp
next
  case (Cons x ys)
  then show ?thesis using argmax_from_range [of ys 1 0 x] by auto
qed

lemma length_np_dot: "length (np_dot embs v) = length embs"
  by (simp add: np_dot_def)

lemma length_fps_loop: "length (fps_loop embs m selected min_dists) = length selected + m"
  by (induction m arbitrary: selected min_dists) (simp_all add: Let_def)

lemma fps_loop_in_range:
  "embs \<noteq> [] \<Longrightarrow> length min_dists = length embs \<Longrightarrow>
   \<forall>i \<in> set selected. i < length embs \<Longrightarrow>
   \<forall>i \<in> set (fps_loop embs m selected min_dists). i < length embs"
proof (induction m arbitrary: selected min_dists)
  case 0
  then show ?case by simp
next
  case (Suc m)
  have "min_dists \<noteq> []"
    using Suc.prems(1,2) by auto
  then have "np_argmax min_dists < length embs"
    using np_argmax_less [of min_dists] Suc.prems(2) by simp
  then have "\<forall>i \<in> set (fps_loop embs m (selected @ [np_argmax min_dists])
                    (map2 min min_dists
                       (map (\<lambda>x. 1 - x) (np_dot embs (embs ! np_argmax min_dists))))).
           i < length embs"
    using Suc.prems by (intro Suc.IH) (simp_all add: length_np_dot)
  then show ?case by (simp add: Let_def)
qed

lemma fps_loop_hd:
  "selected \<noteq> [] \<Longrightarrow> hd (fps_loop embs m selected min_dists) = hd selected"
  by (induction m arbitrary: selected min_dists) (simp_all add: Let_def)

lemma farthest_point_sampling_shape:
  assumes "embs \<noteq> []"
  shows "\<exists>sel. farthest_point_sampling embs k = Inr sel \<and>
           int (length sel) = (if int (length embs) \<le> k then int (length embs) else max 1 k) \<and>
           (\<forall>i \<in> set sel. i < length embs)"
proof (cases "int (length embs) \<le> k")
  case True
  then show ?thesis by (simp add: farthest_point_sampling_def)
next
  case False
  have "\<forall>i \<in> set (fps_loop embs (nat (k - 1)) [0] (map (\<lambda>x. 1 - x) (np_dot embs (embs ! 0)))). i < length embs"
    using assms by (intro fps_loop_in_range) (simp_all add: length_np_dot)
  then show ?thesis
    using False assms by (simp add: farthest_point_sampling_def length_fps_loop Let_def)
qed

lemma requested_k_default_bounds:
  "n_keyframes self = None \<or> n_keyframes self = Some 0 \<Longrightarrow>
   1 \<le> requested_k self n \<and> requested_k self n \<le> 5"
  by (auto simp: requested_k_def)

text \<open>
  Claim C10. For a non-empty frame list whose embeddings were computed, one row per
  frame, \<open>select\<close> returns a non-empty list of at most \<open>n\<close> indices, whatever was
  configured; when no keyframe count was configured (\<open>None\<close>, or the falsy \<open>0\<close>),
  the effective \<open>k\<close> lies between 1 and \<open>n\<close> and is the number of indices returned.
\<close>

theorem select_nonempty:
  assumes "frames \<noteq> []"
    and "compute_embeddings frames = Inr embs"
    and "length embs = length frames"
  shows "\<exists>sel. select compute_embeddings self frames = Inr sel \<and>
           sel \<noteq> [] \<and> length sel \<le> length frames \<and>
           (n_keyframes self = None \<or> n_keyframes self = Some 0 \<longrightarrow>
              1 \<le> effective_k self (int (length frames)) \<and>
              effective_k self (int (length frames)) \<le> int (length frames) \<and>
              int (length sel) = effective_k self (int (length frames)))"
proof -
  let ?n = "int (length frames)"
  let ?k = "effective_k self ?n"
  have ne: "embs \<noteq> []" using assms(1,3) by auto
  obtain sel where s: "farthest_point_sampling embs ?k = Inr sel"
    and l: "int (length sel) = (if int (length embs) \<le> ?k then int (length embs) else max 1 ?k)"
    using farthest_point_sampling_shape [OF ne, of ?k] by blast
  have r: "select compute_embeddings self frames = Inr (sort sel)"
    using assms(1,2) s by (simp add: select_def Let_def)
  have kn: "?k \<le> ?n" by (simp add: effective_k_def)
  have n1: "1 \<le> ?n" using assms(1) by (cases frames) simp_all
  have l1: "1 \<le> int (length sel)" using l n1 assms(3) by (simp split: if_splits)
  have l2: "int (length sel) \<le> ?n" using l kn n1 assms(3) by (simp split: if_splits)
  have d: "n_keyframes self = None \<or> n_keyframes self = Some 0 \<longrightarrow>
           1 \<le> ?k \<and> int (length sel) = ?k"
    using requested_k_default_bounds [of self ?n] l n1 assms(3)
    by (auto simp: effective_k_def split: if_splits)
  have ls: "length (sort sel) = length sel" by simp
  have "sort sel \<noteq> []" using l1 ls by (metis length_0_conv of_nat_0 zero_neq_one not_one_le_zero)
  then show ?thesis
    using r l2 d kn ls by (intro exI [of _ "sort sel"]) (simp del: length_sort)
qed

theorem select_nonempty_witness:
  "\<exists>sel. select (\<lambda>fs. Inr fs) \<lparr>n_keyframes = None\<rparr> [[1, 0], [0, 1 :: real]] = Inr sel \<and>
         sel \<noteq> [] \<and> length sel \<le> length [[1, 0], [0, 1 :: real]] \<and>
         (n_keyframes \<lparr>n_keyframes = None\<rparr> = None \<or>
          n_keyframes \<lparr>n_keyframes = None\<rparr> = Some 0 \<longrightarrow>
              1 \<le> effective_k \<lparr>n_keyframes = None\<rparr> (int (length [[1, 0], [0, 1 :: real]])) \<and>
              effective_k \<lparr>n_keyframes = None\<rparr> (int (length [[1, 0], [0, 1 :: real]])) \<le> int (length [[1, 0], [0, 1 :: real]]) \<and>
              int (length sel) = effective_k \<lparr>n_keyframes = None\<rparr> (int (length [[1, 0], [0, 1 :: real]])))"
  using select_nonempty [of "[[1, 0], [0, 1 :: real]]" "\<lambda>fs. Inr fs" "[[1, 0], [0, 1]]" "\<lparr>n_keyframes = None\<rparr>"]
  by simp


text \<open>
  Claim C3, at three frames with the same unit embedding and two keyframes asked for:
  \<open>select\<close> returns the index 0 twice, so the indices it returns are not unique.
\<close>

theorem select_duplicates:
  "dot [1, 0] [1, 0] = (1 :: real) \<and>
   select (\<lambda>fs. Inr fs) \<lparr>n_keyframes = Some 2\<rparr> [[1, 0], [1, 0], [1, 0 :: real]] = Inr [0, 0]"
  by (simp add: select_def effective_k_def requested_k_def farthest_point_sampling_def
        np_dot_def dot_def Let_def numeral_2_eq_2)

text \<open>
  Claim C6, at four equal embeddings and \<open>k = 3\<close>: after index 0, both picks are the
  index 0 again, which is already selected, where the lowest index not yet selected
  would be 1 and then 2.
\<close>

theorem fps_repeats_selected:
  "farthest_point_sampling [[1, 0], [1, 0], [1, 0], [1, 0]] 3 = Inr [0, 0, 0]"
  by (simp add: farthest_point_sampling_def np_dot_def dot_def Let_def eval_nat_numeral)

section \<open>Properties of the pipeline\<close>


lemma cb_None: "cb None tr stage percent message = tr"
  by (simp add: cb_def)


lemma collaborator_calls_append:
  "collaborator_calls (xs @ ys) = collaborator_calls xs @ collaborator_calls ys"
  by (induction xs rule: collaborator_calls.induct) simp_all

lemma collaborator_calls_cb:
  "collaborator_calls (cb progress_callback tr stage percent message) = collaborator_calls tr"
  by (simp add: cb_def collaborator_calls_append split: option.splits)


lemma collaborator_calls_summarize_scene:
  "collaborator_calls (fst (summarize_scene env self scene_frames)) =
   fst (summarize_scene env self scene_frames)"
  by (simp add: summarize_scene_def Let_def split: sum.splits)









lemma run_unfold:
  "run env self video_path pc =
     (case frames_body (env_cv2 env) (VideoParser_init video_path 1) of
        Inl e \<Rightarrow>
          (cb pc (cb pc (cb pc [] ''parsing'' 0 ''opening video'') ''parsing'' 1 ''done'')
             ''scene_detection'' 0 ''collecting frames'', Inl e)
      | Inr frames \<Rightarrow>
          (case detect_scenes (env_histogram env) (SceneDetector_init 0.5 5) frames of
             Inl e \<Rightarrow>
               (cb pc (cb pc (cb pc (cb pc [] ''parsing'' 0 ''opening video'') ''parsing'' 1 ''done'')
                  ''scene_detection'' 0 ''collecting frames'')
                  ''scene_detection'' 1 (''failed: '' @ str_exn e),
                Inr ''[Pipeline error] scene detection failed'')
           | Inr boundaries \<Rightarrow>
               (case scene_loop env self pc frames boundaries (max 1 (length boundaries))
                       (enumerate 0 boundaries)
                       (cb pc (cb pc (cb pc (cb pc [] ''parsing'' 0 ''opening video'') ''parsing'' 1 ''done'')
                          ''scene_detection'' 0 ''collecting frames'')
                          ''scene_detection'' 1 (''found '' @ str_nat (length boundaries) @ '' scene(s)'')) [] of
                  (tr, Inl e) \<Rightarrow> (tr, Inl e)
                | (tr, Inr scene_summaries) \<Rightarrow> aggregate self pc tr scene_summaries)))"
  by (simp add: run_def VideoParser_frames_def Let_def split: sum.splits)

text \<open>
  Claim C1, at every video path in an environment where no source opens: \<open>run\<close>
  does not return the error string of the parsing stage. The call \<open>parser.frames()\<close>
  only creates the generator, so the \<open>except\<close> of lines 44--46 is never entered; the
  \<open>IOError\<close> is raised by \<open>list(frames_iterator)\<close> on line 51, outside any
  \<open>try\<close>, and reaches the caller of \<open>run\<close>, after the events ``parsing done'' and
  ``collecting frames''.
\<close>

theorem run_unopenable_video_raises:
  "run \<lparr>env_cv2 = (\<lambda>p. None), env_histogram = h, env_compute_embeddings = c\<rparr>
       self video_path progress_callback =
     (cb progress_callback
        (cb progress_callback
           (cb progress_callback [] ''parsing'' 0 ''opening video'') ''parsing'' 1 ''done'')
        ''scene_detection'' 0 ''collecting frames'',
      Inl (IOError (''Failed to open video source: '' @ video_path)))"
  by (simp add: run_unfold frames_body_def VideoParser_init_def)

lemma process_scene_cb:
  assumes "collaborator_calls tr = collaborator_calls tr'"
  shows "snd (process_scene env self pc frames boundaries T i start_idx tr ss) =
         snd (process_scene env self pc' frames boundaries T i start_idx tr' ss) \<and>
         collaborator_calls (fst (process_scene env self pc frames boundaries T i start_idx tr ss)) =
         collaborator_calls (fst (process_scene env self pc' frames boundaries T i start_idx tr' ss))"
proof -
  obtain calls r where b: "summarize_scene env self
      (drop start_idx (take (if i + 1 < length boundaries then boundaries ! (i + 1) else length frames) frames)) = (calls, r)"
    by (cases "summarize_scene env self
      (drop start_idx (take (if i + 1 < length boundaries then boundaries ! (i + 1) else length frames) frames))")
  show ?thesis
    unfolding process_scene_def Let_def b
    using assms by (cases r) (simp_all add: collaborator_calls_cb collaborator_calls_append)
qed


lemma scene_loop_cb:
  "collaborator_calls tr = collaborator_calls tr' \<Longrightarrow>
   snd (scene_loop env self pc frames boundaries T ps tr ss) =
   snd (scene_loop env self pc' frames boundaries T ps tr' ss) \<and>
   collaborator_calls (fst (scene_loop env self pc frames boundaries T ps tr ss)) =
   collaborator_calls (fst (scene_loop env self pc' frames boundaries T ps tr' ss))"
proof (induction ps arbitrary: tr tr' ss)
  case Nil
  then show ?case by simp
next
  case (Cons p ps)
  obtain i start_idx where p: "p = (i, start_idx)" by (cases p)
  obtain t1 r1 where a: "process_scene env self pc frames boundaries T i start_idx tr ss = (t1, r1)"
    by (cases "process_scene env self pc frames boundaries T i start_idx tr ss")
  obtain t2 r2 where b: "process_scene env self pc' frames boundaries T i start_idx tr' ss = (t2, r2)"
    by (cases "process_scene env self pc' frames boundaries T i start_idx tr' ss")
  have e: "r1 = r2" "collaborator_calls t1 = collaborator_calls t2"
    using process_scene_cb [OF Cons.prems, of env self pc frames boundaries T i start_idx ss pc'] a b
    by simp_all
  show ?case
  proof (cases r1)
    case (Inl x)
    then show ?thesis using p a b e by simp
  next
    case (Inr ss1)
    then show ?thesis using p a b e Cons.IH [OF e(2), of ss1] by simp
  qed
qed

lemma aggregate_cb:
  "collaborator_calls tr = collaborator_calls tr' \<Longrightarrow>
   snd (aggregate self pc tr ss) = snd (aggregate self pc' tr' ss) \<and>
   collaborator_calls (fst (aggregate self pc tr ss)) =
   collaborator_calls (fst (aggregate self pc' tr' ss))"
  by (cases "summarizer self ss")
     (simp_all add: aggregate_def Let_def collaborator_calls_cb collaborator_calls_append)

lemma run_cb:
  "snd (run env self video_path pc) = snd (run env self video_path pc') \<and>
   collaborator_calls (fst (run env self video_path pc)) =
   collaborator_calls (fst (run env self video_path pc'))"
proof (cases "frames_body (env_cv2 env) (VideoParser_init video_path 1)")
  case (Inl e)
  then show ?thesis by (simp add: run_unfold collaborator_calls_cb)
next
  case (Inr frames)
  note fr = Inr
  show ?thesis
  proof (cases "detect_scenes (env_histogram env) (SceneDetector_init 0.5 5) frames")
    case (Inl e)
    then show ?thesis using fr by (simp add: run_unfold collaborator_calls_cb)
  next
    case (Inr boundaries)
    let ?t = "\<lambda>pc. cb pc (cb pc (cb pc (cb pc [] ''parsing'' 0 ''opening video'') ''parsing'' 1 ''done'')
                          ''scene_detection'' 0 ''collecting frames'')
                          ''scene_detection'' 1 (''found '' @ str_nat (length boundaries) @ '' scene(s)'')"
    have c0: "collaborator_calls (?t pc) = collaborator_calls (?t pc')"
      by (simp add: collaborator_calls_cb)
    obtain t1 r1 where a: "scene_loop env self pc frames boundaries (max 1 (length boundaries))
                       (enumerate 0 boundaries) (?t pc) [] = (t1, r1)"
      by (cases "scene_loop env self pc frames boundaries (max 1 (length boundaries))
                       (enumerate 0 boundaries) (?t pc) []")
    obtain t2 r2 where b: "scene_loop env self pc' frames boundaries (max 1 (length boundaries))
                       (enumerate 0 boundaries) (?t pc') [] = (t2, r2)"
      by (cases "scene_loop env self pc' frames boundaries (max 1 (length boundaries))
                       (enumerate 0 boundaries) (?t pc') []")
    have e: "r1 = r2" "collaborator_calls t1 = collaborator_calls t2"
      using scene_loop_cb [OF c0, of env self pc frames boundaries "max 1 (length boundaries)"
              "enumerate 0 boundaries" "[]" pc'] a b
      by simp_all
    show ?thesis
    proof (cases r1)
      case (Inl x)
      then show ?thesis using fr Inr a b e by (simp add: run_unfold)
    next
      case (Inr ss1)
      then show ?thesis
        using fr \<open>detect_scenes (env_histogram env) (SceneDetector_init 0.5 5) frames = Inr boundaries\<close>
          a b e aggregate_cb [OF e(2), of self pc ss1 pc']
        by (simp add: run_unfold)
    qed
  qed
qed

text \<open>
  Claim C9. For every progress callback \<open>f\<close>, also one that raises on every call,
  \<open>run\<close> ends as it does with no callback: with the same returned string or the same
  exception, after the same calls of the captioner and of the summarizer.
\<close>

theorem run_ignores_callback:
  "snd (run env self video_path (Some f)) = snd (run env self video_path None) \<and>
   collaborator_calls (fst (run env self video_path (Some f))) =
   collaborator_calls (fst (run env self video_path None))"
  by (rule run_cb)


text \<open>
  Claim C8. With no scene summary, the aggregation emits its two events, ``aggregating
  scene summaries'' and ``no scenes'', and gives the empty string without calling the
  summarizer. In particular, for a video that opens and has no frame, \<open>run\<close> returns
  the empty string after the events of parsing, of scene detection and these two, and
  calls no collaborator at all.
\<close>

theorem run_no_scene_summaries:
  "aggregate self pc tr [] =
     (cb pc (cb pc tr ''aggregation'' 0 ''aggregating scene summaries'')
        ''aggregation'' 1 ''no scenes'', Inr []) \<and>
   (env_cv2 env video_path = Some [] \<longrightarrow>
      run env self video_path pc =
        (cb pc (cb pc (cb pc (cb pc (cb pc (cb pc []
           ''parsing'' 0 ''opening video'')
           ''parsing'' 1 ''done'')
           ''scene_detection'' 0 ''collecting frames'')
           ''scene_detection'' 1 ''found 0 scene(s)'')
           ''aggregation'' 0 ''aggregating scene summaries'')
           ''aggregation'' 1 ''no scenes'', Inr []) \<and>
      collaborator_calls (fst (run env self video_path pc)) = [])"
proof (intro conjI impI)
  show a: "aggregate self pc tr [] =
     (cb pc (cb pc tr ''aggregation'' 0 ''aggregating scene summaries'')
        ''aggregation'' 1 ''no scenes'', Inr [])" for tr
    by (simp add: aggregate_def)
  assume c: "env_cv2 env video_path = Some []"
  have s0: "str_nat 0 = ''0''"
    by code_simp
  show r: "run env self video_path pc =
        (cb pc (cb pc (cb pc (cb pc (cb pc (cb pc []
           ''parsing'' 0 ''opening video'')
           ''parsing'' 1 ''done'')
           ''scene_detection'' 0 ''collecting frames'')
           ''scene_detection'' 1 ''found 0 scene(s)'')
           ''aggregation'' 0 ''aggregating scene summaries'')
           ''aggregation'' 1 ''no scenes'', Inr [])"
    using c
    by (simp add: run_unfold frames_body_def VideoParser_init_def detect_scenes_def a s0)
  show "collaborator_calls (fst (run env self video_path pc)) = []"
    unfolding r by (simp add: collaborator_calls_cb)
qed

theorem run_no_scene_summaries_witness:
  "run \<lparr>env_cv2 = (\<lambda>p. Some []), env_histogram = (\<lambda>h :: real list. Inr h),
        env_compute_embeddings = (\<lambda>fs. Inr fs)\<rparr>
       \<lparr>captioner = (\<lambda>fs. Inr (map (\<lambda>x. ''a'') fs)), summarizer = (\<lambda>ts. Inr (concat ts))\<rparr>
       ''empty.mp4'' None = ([], Inr [])"
  using run_no_scene_summaries [of
      "\<lparr>captioner = (\<lambda>fs. Inr (map (\<lambda>x. ''a'') fs)), summarizer = (\<lambda>ts. Inr (concat ts))\<rparr>"
      None "[]"
      "\<lparr>env_cv2 = (\<lambda>p. Some []), env_histogram = (\<lambda>h :: real list. Inr h),
        env_compute_embeddings = (\<lambda>fs. Inr fs)\<rparr>" "''empty.mp4''"]
  by (simp add: cb_None)










end
